theory Spec2Isabelle
  imports Main "HOL-Library.Sublist" "HOL-Library.AList" "HOL-Library.List_Lexorder" "HOL-Library.Char_ord"
begin

section \<open>Library primitives used by bag.go\<close>

text \<open>
  Go errors carry a message; \<open>err.Error()\<close> is that message, so an error is modelled by
  its message. \<open>fmt.Errorf\<close> and \<open>fmt.Sprintf\<close> are string concatenation (the messages
  of this model contain no formatting verb).
\<close>

type_synonym error = string

subsection \<open>strings and path/filepath on slash-separated paths\<close>

definition HasPrefix :: "string \<Rightarrow> string \<Rightarrow> bool" where
  "HasPrefix s pre = (take (length pre) s = pre)"

text \<open>\<open>strings.ToLower\<close> on ASCII text: the letters A to Z move to a to z.\<close>

definition lowerChar :: "char \<Rightarrow> char" where
  "lowerChar c =
     (case map_of (zip ''ABCDEFGHIJKLMNOPQRSTUVWXYZ'' ''abcdefghijklmnopqrstuvwxyz'') c of
        None \<Rightarrow> c | Some l \<Rightarrow> l)"

definition ToLower :: "string \<Rightarrow> string" where
  "ToLower s = map lowerChar s"

text \<open>The elements of a path between separators, the current element last in \<open>cur\<close>.\<close>

fun splitPath :: "string \<Rightarrow> string \<Rightarrow> string list" where
  "splitPath cur [] = [cur]"
| "splitPath cur (c # cs) =
     (if c = CHR ''/'' then cur # splitPath [] cs else splitPath (cur @ [c]) cs)"

fun joinPath :: "string list \<Rightarrow> string" where
  "joinPath [] = []"
| "joinPath [e] = e"
| "joinPath (e # es) = e @ ''/'' @ joinPath es"

text \<open>
  \<open>filepath.Clean\<close>: empty and \<open>.\<close> elements go, an inner \<open>..\<close> removes the element
  before it, a \<open>..\<close> at the start of a rooted path goes, and the empty result is \<open>.\<close>.
  \<open>out\<close> holds the elements kept so far, last one first.
\<close>

fun cleanElems :: "bool \<Rightarrow> string list \<Rightarrow> string list \<Rightarrow> string list" where
  "cleanElems rooted out [] = rev out"
| "cleanElems rooted out (e # es) =
     (if e = [] \<or> e = ''.'' then cleanElems rooted out es
      else if e = ''..'' then
        (case out of
           [] \<Rightarrow> if rooted then cleanElems rooted [] es else cleanElems rooted [''..''] es
         | o1 # os \<Rightarrow> if o1 = ''..'' then cleanElems rooted (''..'' # out) es
                     else cleanElems rooted os es)
      else cleanElems rooted (e # out) es)"

definition isRooted :: "string \<Rightarrow> bool" where
  "isRooted p = (case p of [] \<Rightarrow> False | c # _ \<Rightarrow> c = CHR ''/'')"

definition Clean :: "string \<Rightarrow> string" where
  "Clean p =
     (let out = (if isRooted p then ''/'' else []) @ joinPath (cleanElems (isRooted p) [] (splitPath [] p))
      in if out = [] then ''.'' else out)"

text \<open>\<open>filepath.Join\<close>: leading empty elements are ignored, the rest is joined and cleaned.\<close>

definition Join :: "string list \<Rightarrow> string" where
  "Join elem =
     (case dropWhile (\<lambda>e. e = []) elem of [] \<Rightarrow> [] | e # es \<Rightarrow> Clean (joinPath (e # es)))"

text \<open>\<open>filepath.Dir\<close>: everything up to the last separator, cleaned.\<close>

definition Dir :: "string \<Rightarrow> string" where
  "Dir p = Clean (rev (dropWhile (\<lambda>c. c \<noteq> CHR ''/'') (rev p)))"

text \<open>
  \<open>filepath.Rel\<close>: both paths are cleaned; equal paths give \<open>.\<close>; a rooted and an unrooted
  path cannot be related; the common leading elements are dropped, and a base that still
  starts with \<open>..\<close> cannot be left. Each base element left costs one \<open>..\<close>.
\<close>

fun dropCommon :: "string list \<Rightarrow> string list \<Rightarrow> string list \<times> string list" where
  "dropCommon (b # bs) (t # ts) = (if b = t then dropCommon bs ts else (b # bs, t # ts))"
| "dropCommon bs ts = (bs, ts)"

definition pathElems :: "string \<Rightarrow> string list" where
  "pathElems p = filter (\<lambda>e. e \<noteq> []) (splitPath [] p)"

definition Rel :: "string \<Rightarrow> string \<Rightarrow> string \<times> error option" where
  "Rel basepath targpath =
     (let base = Clean basepath; targ = Clean targpath in
      if targ = base then (''.'', None)
      else
        let base = (if base = ''.'' then [] else base) in
        if isRooted base \<noteq> isRooted targ
        then ([], Some (''Rel: can't make '' @ targpath @ '' relative to '' @ basepath))
        else
          (case dropCommon (pathElems base) (pathElems targ) of
             (bs, ts) \<Rightarrow>
               if (case bs of [] \<Rightarrow> False | b # _ \<Rightarrow> b = ''..'')
               then ([], Some (''Rel: can't make '' @ targpath @ '' relative to '' @ basepath))
               else (joinPath (map (\<lambda>_. ''..'') bs @ ts), None)))"

section \<open>Data model\<close>

text \<open>
  Modelled from the spec: TagFile (tagfile.go is not among the sources). A tag file is
  a name and a list of fields, each a label and a value. \<open>tf_name\<close> is what \<open>Name()\<close>
  returns: the path handed to \<open>NewTagFile\<close>, which bag.go gives as the bag path joined
  with the relative name and later opens and creates directories for. \<open>tf_Data\<close> is the
  field list behind \<open>Data\<close>, empty on creation; \<open>AddField\<close> appends.
\<close>

type_synonym TagField = "string \<times> string"

record TagFile =
  tf_name :: string
  tf_Data :: "TagField list"

definition NewTagField :: "string \<Rightarrow> string \<Rightarrow> TagField" where
  "NewTagField label val = (label, val)"

definition NewTagFile :: "string \<Rightarrow> TagFile \<times> error option" where
  "NewTagFile nm = (\<lparr>tf_name = nm, tf_Data = []\<rparr>, None)"

definition AddField :: "TagField \<Rightarrow> TagFile \<Rightarrow> TagFile" where
  "AddField f tf = tf\<lparr>tf_Data := tf_Data tf @ [f]\<rparr>"

text \<open>
  Modelled from the spec: Manifest (manifest.go carries the struct only). \<open>m_name\<close> is
  what \<open>Name()\<close> returns, the manifest's own file; \<open>m_type\<close> and \<open>m_algo\<close> are what
  \<open>Type()\<close> and \<open>Algorithm()\<close> return; \<open>m_Data\<close> is the \<open>Data\<close> map from file path to
  digest, kept as an association list with one pair for each key.
\<close>

datatype ManifestType = PayloadManifest | TagManifest

record Manifest =
  m_name :: string
  m_type :: ManifestType
  m_algo :: string
  m_Data :: "(string \<times> string) list"

text \<open>
  Modelled from the spec: Payload (payload.go is not among the sources; its test shows
  that \<open>Name()\<close> returns the directory given to \<open>NewPayload\<close>).
\<close>

record Payload =
  p_dir :: string

text \<open>The Bag of bag.go.\<close>

record Bag =
  pathToFile :: string
  payload :: Payload
  Manifests :: "Manifest list"
  tagfiles :: "(string \<times> TagFile) list"

text \<open>
  The Bag of the earlier revision of bag.go, which keeps one manifest. A Go map is iterated in an
  order of the runtime's choosing; the association list of tag files stands for the map
  together with the order of one run.
\<close>

record Bag1 =
  pth :: string
  payload1 :: Payload
  Manifest1 :: Manifest
  tagfiles1 :: "(string \<times> TagFile) list"

section \<open>The machine outside the program\<close>

text \<open>
  What the program does to the disk, in the order it does it: ensuring a directory,
  writing a tag file, reading a file for its checksum under an algorithm, writing a
  manifest, reading a manifest.
\<close>

datatype event =
    EvMkdir string
  | EvMkdirAll string
  | EvWriteTagFile string
  | EvChecksum string string
  | EvWriteManifest string
  | EvReadManifest string

text \<open>
  The disk has directories and files with their content; creating or writing fails on the
  paths in \<open>denied\<close>. \<open>walk root\<close> is the sequence of calls \<open>filepath.Walk\<close> makes for
  \<open>root\<close>: the path, whether it is a directory, and the error of reading it.
  \<open>digest algo content\<close> is the hexadecimal digest of the content under the algorithm.
  \<open>readManifest\<close> and \<open>readTagFile\<close> are what \<open>ReadManifest\<close> and \<open>ReadTagFile\<close>
  (neither is among the sources) return for a path. \<open>verbs\<close> is what the fmt package
  prints for a format string that starts with a percent sign when there are no operands
  (\<open>%!v(MISSING)\<close> and the like). \<open>trace\<close> records the disk operations.
\<close>

type_synonym walk_entry = "string \<times> bool \<times> error option"

record world =
  dirs :: "string set"
  files :: "string \<rightharpoonup> string"
  denied :: "string set"
  walk :: "string \<Rightarrow> walk_entry list"
  digest :: "string \<Rightarrow> string \<Rightarrow> string"
  readManifest :: "string \<Rightarrow> Manifest \<times> error list"
  readTagFile :: "string \<Rightarrow> TagFile option \<times> error list"
  verbs :: "string \<Rightarrow> string"
  trace :: "event list"

definition logEv :: "event \<Rightarrow> world \<Rightarrow> world" where
  "logEv e w = w\<lparr>trace := trace w @ [e]\<rparr>"

text \<open>
  \<open>fmt.Errorf\<close> called with a message as its format string and no operands: the text
  before the first percent sign is copied, and the rest is what fmt prints for it.
\<close>

definition Errorf :: "string \<Rightarrow> world \<Rightarrow> error" where
  "Errorf format w =
     (case dropWhile (\<lambda>c. c \<noteq> CHR ''%'') format of
        [] \<Rightarrow> format
      | c # cs \<Rightarrow> takeWhile (\<lambda>c. c \<noteq> CHR ''%'') format @ verbs w (c # cs))"

text \<open>\<open>os.Stat\<close>: whether the path is a directory, or the error.\<close>

definition os_Stat :: "string \<Rightarrow> world \<Rightarrow> bool \<times> error option" where
  "os_Stat p w =
     (if p \<in> dirs w then (True, None)
      else if files w p \<noteq> None then (False, None)
      else (False, Some (''stat '' @ p @ '': no such file or directory'')))"

definition os_Mkdir :: "string \<Rightarrow> world \<Rightarrow> error option \<times> world" where
  "os_Mkdir p w0 =
     (let w = logEv (EvMkdir p) w0 in
      if p \<in> dirs w \<or> files w p \<noteq> None then (Some (''mkdir '' @ p @ '': file exists''), w)
      else if Dir p \<notin> dirs w then (Some (''mkdir '' @ p @ '': no such file or directory''), w)
      else if p \<in> denied w then (Some (''mkdir '' @ p @ '': permission denied''), w)
      else (None, w\<lparr>dirs := insert p (dirs w)\<rparr>))"

text \<open>The path and the directories above it, the path itself first.\<close>

fun upward :: "string list \<Rightarrow> string list" where
  "upward [] = []"
| "upward (e # es) = joinPath (rev (e # es)) # upward es"

definition ancestors :: "string \<Rightarrow> string list" where
  "ancestors p = map (\<lambda>q. (if isRooted p then ''/'' else []) @ q) (upward (rev (pathElems p)))"

text \<open>
  \<open>os.MkdirAll\<close>: nothing to do for a directory; otherwise every missing directory on
  the way is created, which fails where a file is in the way or creation is denied.
\<close>

definition mkdirAll :: "string \<Rightarrow> world \<Rightarrow> error option \<times> world" where
  "mkdirAll p w =
     (if p \<in> dirs w then (None, w)
      else if \<exists>q \<in> set (ancestors p). files w q \<noteq> None
        then (Some (''mkdir '' @ p @ '': not a directory''), w)
      else if \<exists>q \<in> set (ancestors p). q \<notin> dirs w \<and> q \<in> denied w
        then (Some (''mkdir '' @ p @ '': permission denied''), w)
      else (None, w\<lparr>dirs := dirs w \<union> set (ancestors p)\<rparr>))"

definition os_MkdirAll :: "string \<Rightarrow> world \<Rightarrow> error option \<times> world" where
  "os_MkdirAll p w = mkdirAll p (logEv (EvMkdirAll p) w)"

text \<open>Creating a file and writing its content.\<close>

definition writeFile :: "string \<Rightarrow> string \<Rightarrow> world \<Rightarrow> error option \<times> world" where
  "writeFile p content w =
     (if p \<in> dirs w then (Some (''open '' @ p @ '': is a directory''), w)
      else if Dir p \<notin> dirs w then (Some (''open '' @ p @ '': no such file or directory''), w)
      else if p \<in> denied w then (Some (''open '' @ p @ '': permission denied''), w)
      else (None, w\<lparr>files := (files w)(p \<mapsto> content)\<rparr>))"

text \<open>
  Modelled from the spec: \<open>bagutil.FileChecksum\<close> (the bagutil package is not among the
  sources). It reads the file and returns its digest under the manifest's algorithm, or
  the error of opening it.
\<close>

definition FileChecksum :: "string \<Rightarrow> string \<Rightarrow> world \<Rightarrow> (string \<times> error option) \<times> world" where
  "FileChecksum p algo w0 =
     (let w = logEv (EvChecksum p algo) w0 in
      case files w p of
        None \<Rightarrow> (([], Some (''open '' @ p @ '': no such file or directory'')), w)
      | Some content \<Rightarrow> ((digest w algo content, None), w))"

section \<open>Collaborators of the bag\<close>

text \<open>
  Modelled from the spec: \<open>TagFile.Create\<close> writes the tag file's current content, one
  line \<open>label: value\<close> for each field, to its own path.
\<close>

definition tagFileText :: "TagFile \<Rightarrow> string" where
  "tagFileText tf = concat (map (\<lambda>(label, val). label @ '': '' @ val @ [CHR 0x0A]) (tf_Data tf))"

definition TagFile_Create :: "TagFile \<Rightarrow> world \<Rightarrow> error option \<times> world" where
  "TagFile_Create tf w = writeFile (tf_name tf) (tagFileText tf) (logEv (EvWriteTagFile (tf_name tf)) w)"

text \<open>
  Modelled from the spec: \<open>Manifest.Create\<close> serializes the entries, one line
  \<open>digest path\<close> for each, ordered by path, and writes them to the manifest's own
  file, creating parent directories as needed.
\<close>

definition manifestText :: "Manifest \<Rightarrow> string" where
  "manifestText m = concat (map (\<lambda>(path, sum). sum @ '' '' @ path @ [CHR 0x0A]) (sort_key fst (m_Data m)))"

definition Manifest_Create :: "Manifest \<Rightarrow> world \<Rightarrow> error option \<times> world" where
  "Manifest_Create m w0 =
     (case mkdirAll (Dir (m_name m)) (logEv (EvWriteManifest (m_name m)) w0) of
        (Some err, w) \<Rightarrow> (Some err, w)
      | (None, w) \<Rightarrow> writeFile (m_name m) (manifestText m) w)"

text \<open>
  \<open>ReadManifest\<close> is not among the sources: its result for a path is the world's
  \<open>readManifest\<close>, a manifest and the list of parse errors, and the read is recorded.
\<close>

definition ReadManifest :: "string \<Rightarrow> world \<Rightarrow> (Manifest \<times> error list) \<times> world" where
  "ReadManifest p w = (readManifest w p, logEv (EvReadManifest p) w)"

definition ReadTagFile :: "string \<Rightarrow> world \<Rightarrow> TagFile option \<times> error list" where
  "ReadTagFile p w = readTagFile w p"

text \<open>
  Modelled from the spec: \<open>NewManifest\<close> makes an empty manifest for an algorithm of the
  fixed set. bag.go passes the bag's directory for a payload manifest, whose file is
  \<open>manifest-<algorithm>.txt\<close> there, and the path of \<open>tagmanifest-<algorithm>.txt\<close> for
  a tag manifest.
\<close>

definition supportedAlgorithms :: "string list" where
  "supportedAlgorithms = [''md5'', ''sha1'', ''sha224'', ''sha256'', ''sha384'', ''sha512'']"

definition Base :: "string \<Rightarrow> string" where
  "Base p = (case rev (pathElems p) of [] \<Rightarrow> (if p = [] then ''.'' else ''/'') | e # _ \<Rightarrow> e)"

definition NewManifest :: "string \<Rightarrow> string \<Rightarrow> error + Manifest" where
  "NewManifest pth0 hashName =
     (if ToLower hashName \<notin> set supportedAlgorithms
      then Inl (''Unsupported algorithm: '' @ hashName)
      else if HasPrefix (Base pth0) ''tagmanifest-''
      then Inr \<lparr>m_name = pth0, m_type = TagManifest, m_algo = ToLower hashName, m_Data = []\<rparr>
      else Inr \<lparr>m_name = Join [pth0, ''manifest-'' @ ToLower hashName @ ''.txt''],
                m_type = PayloadManifest, m_algo = ToLower hashName, m_Data = []\<rparr>)"

text \<open>
  Modelled from the spec: \<open>NewPayload\<close> fails when the directory does not exist (the
  payload test among the sources checks this) and \<open>Name()\<close> returns the directory.
\<close>

definition NewPayload :: "string \<Rightarrow> world \<Rightarrow> error + Payload" where
  "NewPayload location w =
     (case os_Stat location w of
        (_, Some err) \<Rightarrow> Inl (''Payload directory does not exist! Returned: '' @ err)
      | (_, None) \<Rightarrow> Inr \<lparr>p_dir = location\<rparr>)"

definition Payload_Name :: "Payload \<Rightarrow> string" where
  "Payload_Name p = p_dir p"

section \<open>bag.go\<close>

definition Path :: "Bag \<Rightarrow> string" where
  "Path b = pathToFile b"

subsection \<open>ListFiles\<close>

text \<open>
  The closure \<open>visit\<close> of ListFiles, with the slice \<open>files\<close> it appends to passed
  through. \<open>root\<close> is \<open>b.Path()\<close> and \<open>pname\<close> is \<open>b.payload.Name()\<close>.
\<close>

definition visit :: "string \<Rightarrow> string \<Rightarrow> string list \<Rightarrow> walk_entry \<Rightarrow> string list \<times> error option" where
  "visit root pname fs entry =
     (case entry of (pth0, isDir, err) \<Rightarrow>
        (case err of
           Some e \<Rightarrow> (fs, Some e)
         | None \<Rightarrow>
             let isPayload = HasPrefix pth0 pname in
             if \<not> isDir \<or> \<not> isPayload then
               (case Rel root pth0 of
                  (fp, Some e) \<Rightarrow> (fs, Some e)
                | (fp, None) \<Rightarrow> (if fp \<noteq> ''.'' then fs @ [fp] else fs, None))
             else (fs, None)))"

text \<open>\<open>filepath.Walk\<close> calls the function on every entry and stops at the first error.\<close>

fun Walk :: "walk_entry list \<Rightarrow> (string list \<Rightarrow> walk_entry \<Rightarrow> string list \<times> error option)
    \<Rightarrow> string list \<Rightarrow> string list \<times> error option" where
  "Walk [] f fs = (fs, None)"
| "Walk (e # es) f fs =
     (case f fs e of
        (fs', Some err) \<Rightarrow> (fs', Some err)
      | (fs', None) \<Rightarrow> Walk es f fs')"

definition listFilesUnder :: "string \<Rightarrow> string \<Rightarrow> world \<Rightarrow> string list \<times> error option" where
  "listFilesUnder root pname w =
     (case Walk (walk w root) (visit root pname) [] of
        (_, Some err) \<Rightarrow> ([], Some err)
      | (fs, None) \<Rightarrow> (fs, None))"

definition ListFiles :: "Bag \<Rightarrow> world \<Rightarrow> string list \<times> error option" where
  "ListFiles b w = listFilesUnder (Path b) (Payload_Name (payload b)) w"

subsection \<open>Tag files\<close>

text \<open>
  AddTagfile joins the bag path and the name, ensures the directory, makes the tag file
  for the joined path, registers it under the name and creates it on disk.
\<close>

definition AddTagfile :: "string \<Rightarrow> Bag \<Rightarrow> world \<Rightarrow> error option \<times> Bag \<times> world" where
  "AddTagfile nm b w =
     (let tagFilePath = Join [Path b, nm] in
      case os_MkdirAll (Dir tagFilePath) w of
        (Some err, w1) \<Rightarrow> (Some err, b, w1)
      | (None, w1) \<Rightarrow>
          (case NewTagFile tagFilePath of
             (tf, Some err) \<Rightarrow> (Some err, b, w1)
           | (tf, None) \<Rightarrow>
               let b1 = b\<lparr>tagfiles := AList.update nm tf (tagfiles b)\<rparr> in
               (case TagFile_Create tf w1 of
                  (Some err, w2) \<Rightarrow> (Some err, b1, w2)
                | (None, w2) \<Rightarrow> (None, b1, w2))))"

definition TagFile :: "Bag \<Rightarrow> string \<Rightarrow> error + TagFile" where
  "TagFile b nm =
     (case map_of (tagfiles b) nm of
        Some tf \<Rightarrow> Inr tf
      | None \<Rightarrow> Inl (''Unable to find tagfile '' @ nm))"

definition ListTagFiles :: "Bag \<Rightarrow> string list" where
  "ListTagFiles b = map fst (tagfiles b)"

definition BagInfo :: "Bag \<Rightarrow> error + TagFile" where
  "BagInfo b = (case TagFile b ''bag-info.txt'' of Inl err \<Rightarrow> Inl err | Inr tf \<Rightarrow> Inr tf)"

text \<open>
  createBagItFile adds the two fields through the pointer that the map holds, so the
  registered tag file has them too.
\<close>

definition createBagItFile :: "Bag \<Rightarrow> world \<Rightarrow> (error + TagFile) \<times> Bag \<times> world" where
  "createBagItFile b w =
     (case AddTagfile ''bagit.txt'' b w of
        (Some err, b1, w1) \<Rightarrow> (Inl err, b1, w1)
      | (None, b1, w1) \<Rightarrow>
          (case TagFile b1 ''bagit.txt'' of
             Inl err \<Rightarrow> (Inl err, b1, w1)
           | Inr bagit0 \<Rightarrow>
               let bagit1 = AddField (NewTagField ''BagIt-Version'' ''0.97'') bagit0;
                   bagit = AddField (NewTagField ''Tag-File-Character-Encoding'' ''UTF-8'') bagit1
               in (Inr bagit, b1\<lparr>tagfiles := AList.update ''bagit.txt'' bagit (tagfiles b1)\<rparr>, w1)))"

subsection \<open>Manifests of a bag\<close>

definition GetManifest :: "Bag \<Rightarrow> ManifestType \<Rightarrow> string \<Rightarrow> Manifest option" where
  "GetManifest b manifestType algorithm =
     find (\<lambda>m. m_type m = manifestType \<and> m_algo m = algorithm) (Manifests b)"

definition GetManifests :: "Bag \<Rightarrow> ManifestType \<Rightarrow> Manifest list" where
  "GetManifests b manifestType = filter (\<lambda>m. m_type m = manifestType) (Manifests b)"

subsection \<open>Save\<close>

text \<open>
  The inner loop of Save for one tag file. \<open>GetManifests\<close> returns pointers to the
  bag's own manifests in their order, so the loop goes through the bag's manifests,
  passes over those that are no tag manifest and stores each checksum in the manifest
  itself. The first component is the error list of the early \<open>return errors\<close>.
\<close>

fun addChecksums :: "TagFile \<Rightarrow> Manifest list \<Rightarrow> world \<Rightarrow> error option \<times> Manifest list \<times> world" where
  "addChecksums tf [] w = (None, [], w)"
| "addChecksums tf (manifest # ms) w =
     (if m_type manifest = TagManifest then
        (case FileChecksum (tf_name tf) (m_algo manifest) w of
           ((checksum, Some err), w1) \<Rightarrow>
             (Some (''Error calculating '' @ m_algo manifest @ '' checksum for file '' @ tf_name tf
                      @ '': '' @ err), manifest # ms, w1)
         | ((checksum, None), w1) \<Rightarrow>
             (case addChecksums tf ms w1 of
                (r, ms1, w2) \<Rightarrow>
                  (r, manifest\<lparr>m_Data := AList.update (tf_name tf) checksum (m_Data manifest)\<rparr> # ms1, w2)))
      else
        (case addChecksums tf ms w of (r, ms1, w2) \<Rightarrow> (r, manifest # ms1, w2)))"

definition appendErr :: "error list \<Rightarrow> error option \<Rightarrow> error list" where
  "appendErr errs r = (case r of Some err \<Rightarrow> errs @ [err] | None \<Rightarrow> errs)"

text \<open>The loop over the tag files: directory, file, then the checksums of that file.\<close>

fun saveTagFiles :: "(string \<times> TagFile) list \<Rightarrow> Manifest list \<Rightarrow> error list \<Rightarrow> world
    \<Rightarrow> error option \<times> error list \<times> Manifest list \<times> world" where
  "saveTagFiles [] ms errs w = (None, errs, ms, w)"
| "saveTagFiles ((k, tf) # tfs) ms errs w =
     (case os_MkdirAll (Dir (tf_name tf)) w of
        (r1, w1) \<Rightarrow>
          (case TagFile_Create tf w1 of
             (r2, w2) \<Rightarrow>
               (case addChecksums tf ms w2 of
                  (Some e, ms1, w3) \<Rightarrow> (Some e, appendErr (appendErr errs r1) r2, ms1, w3)
                | (None, ms1, w3) \<Rightarrow> saveTagFiles tfs ms1 (appendErr (appendErr errs r1) r2) w3)))"

text \<open>The loop over all manifests of the bag.\<close>

fun writeManifests :: "Manifest list \<Rightarrow> error list \<Rightarrow> world \<Rightarrow> error list \<times> world" where
  "writeManifests [] errs w = (errs, w)"
| "writeManifests (manifest # ms) errs w =
     (case Manifest_Create manifest w of
        (r, w1) \<Rightarrow> writeManifests ms (appendErr errs r) w1)"

definition Save :: "Bag \<Rightarrow> world \<Rightarrow> error list \<times> Bag \<times> world" where
  "Save b w =
     (case saveTagFiles (tagfiles b) (Manifests b) [] w of
        (Some e, errs, ms, w1) \<Rightarrow> ([e], b\<lparr>Manifests := ms\<rparr>, w1)
      | (None, errs, ms, w1) \<Rightarrow>
          (case writeManifests ms errs w1 of
             (errs1, w2) \<Rightarrow> (errs1, b\<lparr>Manifests := ms\<rparr>, w2)))"

subsection \<open>NewBag\<close>

text \<open>The loop of NewBag over the hash names, appending to the manifests.\<close>

fun newManifests :: "string \<Rightarrow> string list \<Rightarrow> bool \<Rightarrow> Manifest list \<Rightarrow> error + Manifest list" where
  "newManifests bagPath [] createTagManifests ms = Inr ms"
| "newManifests bagPath (hashName # hs) createTagManifests ms =
     (let lcHashName = ToLower hashName in
      case NewManifest bagPath lcHashName of
        Inl err \<Rightarrow> Inl err
      | Inr manifest \<Rightarrow>
          if createTagManifests then
            (let tagManifestName = ''tagmanifest-'' @ lcHashName @ ''.txt'';
                 fullPath = Join [bagPath, tagManifestName]
             in case NewManifest fullPath lcHashName of
                  Inl err \<Rightarrow> Inl err
                | Inr tagmanifest \<Rightarrow>
                    newManifests bagPath hs createTagManifests (ms @ [manifest, tagmanifest]))
          else newManifests bagPath hs createTagManifests (ms @ [manifest]))"

text \<open>
  Everything NewBag does before it saves: the bag with its manifests, payload and
  bagit.txt, or the error it returns.
\<close>

definition initBag :: "string \<Rightarrow> string \<Rightarrow> string list \<Rightarrow> bool \<Rightarrow> world \<Rightarrow> (error + Bag) \<times> world" where
  "initBag location nm hashNames createTagManifests w =
     (let bagPath = Join [location, nm] in
      case os_Mkdir bagPath w of
        (Some err, w1) \<Rightarrow> (Inl err, w1)
      | (None, w1) \<Rightarrow>
          (case newManifests bagPath hashNames createTagManifests [] of
             Inl err \<Rightarrow> (Inl err, w1)
           | Inr ms \<Rightarrow>
               let plPath = Join [bagPath, ''data''] in
               (case os_Mkdir plPath w1 of
                  (Some err, w2) \<Rightarrow> (Inl err, w2)
                | (None, w2) \<Rightarrow>
                    (case NewPayload plPath w2 of
                       Inl err \<Rightarrow> (Inl err, w2)
                     | Inr pl \<Rightarrow>
                         (case createBagItFile
                                 \<lparr>pathToFile = bagPath, payload = pl, Manifests = ms, tagfiles = []\<rparr> w2 of
                            (Inl err, b1, w3) \<Rightarrow> (Inl err, w3)
                          | (Inr tf, b1, w3) \<Rightarrow>
                              (Inr (b1\<lparr>tagfiles := AList.update ''bagit.txt'' tf (tagfiles b1)\<rparr>), w3))))))"

text \<open>
  NewBag saves the initialised bag. The variable \<open>err\<close> tested after Save is the one
  createBagItFile returned, which is nil on this path.
\<close>

definition NewBag :: "string \<Rightarrow> string \<Rightarrow> string list \<Rightarrow> bool \<Rightarrow> world \<Rightarrow> (error + Bag) \<times> world" where
  "NewBag location nm hashNames createTagManifests w =
     (case initBag location nm hashNames createTagManifests w of
        (Inl e, w1) \<Rightarrow> (Inl e, w1)
      | (Inr bag, w1) \<Rightarrow>
          (let err = (None :: error option) in
           case Save bag w1 of
             (errors, bag1, w2) \<Rightarrow>
               if err \<noteq> None \<and> length errors > 0
               then (Inl (Errorf (foldl (\<lambda>message e. message @ '', '' @ e) [] errors) w2), w2)
               else (Inr bag1, w2)))"

subsection \<open>ReadBag\<close>

text \<open>
  The loop of findManifests over the listed files: a file whose joined path starts with
  the payload or the tag manifest prefix is read, and the first read with errors returns
  them.
\<close>

definition isManifestPath :: "string \<Rightarrow> string \<Rightarrow> bool" where
  "isManifestPath root fName =
     (let filePath = Join [root, fName];
          payloadManifestPrefix = Join [root, ''manifest-''];
          tagManifestPrefix = Join [root, ''tagmanifest-'']
      in HasPrefix filePath payloadManifestPrefix \<or> HasPrefix filePath tagManifestPrefix)"

fun findLoop :: "string \<Rightarrow> string list \<Rightarrow> Manifest list \<Rightarrow> world \<Rightarrow> error list \<times> Manifest list \<times> world" where
  "findLoop root [] ms w = ([], ms, w)"
| "findLoop root (fName # rest) ms w =
     (if isManifestPath root fName then
        (case ReadManifest (Join [root, fName]) w of
           ((manifest, errors), w1) \<Rightarrow>
             if errors \<noteq> [] then (errors, ms, w1)
             else findLoop root rest (ms @ [manifest]) w1)
      else findLoop root rest ms w)"

definition findManifests :: "Bag \<Rightarrow> world \<Rightarrow> error list \<times> Bag \<times> world" where
  "findManifests b w =
     (if length (Manifests b) = 0 then
        (case ListFiles b w of
           (bagFiles, _) \<Rightarrow>
             (case findLoop (pathToFile b) bagFiles (Manifests b) w of
                (errors, ms, w1) \<Rightarrow> (errors, b\<lparr>Manifests := ms\<rparr>, w1)))
      else ([], b, w))"

text \<open>The loop of ReadBag that reads every found manifest again from its path.\<close>

definition joinErrors :: "error list \<Rightarrow> string" where
  "joinErrors errs = foldl (\<lambda>msg e. msg @ ''; '' @ e) [] errs"

fun reparse :: "string \<Rightarrow> Manifest list \<Rightarrow> world \<Rightarrow> (error + Manifest list) \<times> world" where
  "reparse root [] w = (Inr [], w)"
| "reparse root (manifest # ms) w =
     (let manifestPath = (if Dir (m_name manifest) \<noteq> root then Join [root, m_name manifest]
                          else m_name manifest)
      in case os_Stat manifestPath w of
           (_, Some err) \<Rightarrow> (Inl (''Can't find manifest: '' @ err), w)
         | (_, None) \<Rightarrow>
             (case ReadManifest manifestPath w of
                ((parsedManifest, errs), w1) \<Rightarrow>
                  if errs \<noteq> [] then
                    (Inl (''Unable to parse manifest '' @ manifestPath @ '': '' @ joinErrors errs), w1)
                  else
                    (case reparse root ms w1 of
                       (Inl e, w2) \<Rightarrow> (Inl e, w2)
                     | (Inr ms1, w2) \<Rightarrow> (Inr (parsedManifest # ms1), w2))))"

text \<open>The loop over the expected tag files; parse errors are logged at most.\<close>

fun readTagFiles :: "string \<Rightarrow> string list \<Rightarrow> (string \<times> TagFile) list \<Rightarrow> world \<Rightarrow> (string \<times> TagFile) list" where
  "readTagFiles root [] tfs w = tfs"
| "readTagFiles root (tName # rest) tfs w =
     (case ReadTagFile (Join [root, tName]) w of
        (Some tf, errs) \<Rightarrow> readTagFiles root rest (AList.update tName tf tfs) w
      | (None, errs) \<Rightarrow> readTagFiles root rest tfs w)"

definition NoManifestFound :: error where
  "NoManifestFound = ''Unable to parse a manifest''"

definition ReadBag :: "string \<Rightarrow> string list \<Rightarrow> world \<Rightarrow> (error + Bag) \<times> world" where
  "ReadBag root tagfiles0 w =
     (case os_Stat root w of
        (_, Some err) \<Rightarrow> (Inl err, w)
      | (isDir, None) \<Rightarrow>
          if \<not> isDir then (Inl (root @ '' is not a directory.''), w)
          else
            (case NewPayload (Join [root, ''data'']) w of
               Inl err \<Rightarrow> (Inl err, w)
             | Inr pl \<Rightarrow>
                 (case findManifests \<lparr>pathToFile = root, payload = pl, Manifests = [], tagfiles = []\<rparr> w of
                    (errors, bag, w1) \<Rightarrow>
                      if errors \<noteq> [] then (Inl (Errorf (joinErrors errors) w1), w1)
                      else if length (Manifests bag) = 0 then (Inl NoManifestFound, w1)
                      else
                        (case reparse root (Manifests bag) w1 of
                           (Inl err, w2) \<Rightarrow> (Inl err, w2)
                         | (Inr ms, w2) \<Rightarrow>
                             (Inr (bag\<lparr>Manifests := ms,
                                       tagfiles := readTagFiles root tagfiles0 (tagfiles bag) w2\<rparr>), w2)))))"

section \<open>The earlier revision of bag.go: TrackedFiles and Orphans\<close>

definition Path1 :: "Bag1 \<Rightarrow> string" where
  "Path1 b = pth b"

text \<open>ListFiles has the same body in both revisions.\<close>

definition ListFiles1 :: "Bag1 \<Rightarrow> world \<Rightarrow> string list \<times> error option" where
  "ListFiles1 b w = listFilesUnder (Path1 b) (Payload_Name (payload1 b)) w"

text \<open>
  TrackedFiles appends every key of the tag-file map, then the manifest's path relative
  to the bag when \<open>filepath.Rel\<close> returned an error (\<open>err != nil\<close>).
\<close>

definition TrackedFiles :: "Bag1 \<Rightarrow> string list" where
  "TrackedFiles b =
     (let fs = map fst (tagfiles1 b) in
      case Rel (Path1 b) (m_name (Manifest1 b)) of
        (mPath, Some err) \<Rightarrow> fs @ [mPath]
      | (mPath, None) \<Rightarrow> fs)"

text \<open>
  Orphans keeps the listed files that are no key of the map built from the tracked
  files; the error of ListFiles is assigned to the blank identifier.
\<close>

definition Orphans :: "Bag1 \<Rightarrow> world \<Rightarrow> string list" where
  "Orphans b w =
     (let tracked = TrackedFiles b;
          fMap = map_of (map (\<lambda>fn. (fn, True)) tracked)
      in case ListFiles1 b w of
           (fs, _) \<Rightarrow> filter (\<lambda>f. fMap f = None) fs)"

section \<open>Example bags and disks\<close>

text \<open>A stand-in for the hash functions: the algorithm name, a colon and the content.\<close>

definition toyDigest :: "string \<Rightarrow> string \<Rightarrow> string" where
  "toyDigest algo content = algo @ '':'' @ content"

text \<open>
  A disk with the directory \<open>/tmp\<close> and nothing else; every manifest read parses. No
  message of the examples has a percent sign, so \<open>verbs\<close> is never applied.
\<close>

definition tmpDisk :: world where
  "tmpDisk =
     \<lparr>dirs = {''/tmp''}, files = Map.empty, denied = {}, walk = (\<lambda>root. []),
      digest = toyDigest,
      readManifest = (\<lambda>p. (\<lparr>m_name = p, m_type = PayloadManifest, m_algo = ''md5'', m_Data = []\<rparr>, [])),
      readTagFile = (\<lambda>p. (None, [])),
      verbs = (\<lambda>s. s),
      trace = []\<rparr>"

text \<open>
  The bag \<open>/tmp/bag1\<close> on disk: bagit.txt, the payload file \<open>data/a.txt\<close> and
  manifest-md5.txt, in the lexical order of the walk.
\<close>

definition bag1Disk :: world where
  "bag1Disk =
     tmpDisk\<lparr>dirs := {''/tmp'', ''/tmp/bag1'', ''/tmp/bag1/data''},
             files := [''/tmp/bag1/bagit.txt'' \<mapsto> ''BagIt-Version: 0.97'',
                       ''/tmp/bag1/data/a.txt'' \<mapsto> ''hello'',
                       ''/tmp/bag1/manifest-md5.txt'' \<mapsto> ''md5:hello data/a.txt''],
             walk := (\<lambda>root. if root = ''/tmp/bag1'' then
                        [(''/tmp/bag1'', True, None),
                         (''/tmp/bag1/bagit.txt'', False, None),
                         (''/tmp/bag1/data'', True, None),
                         (''/tmp/bag1/data/a.txt'', False, None),
                         (''/tmp/bag1/manifest-md5.txt'', False, None)]
                      else [])\<rparr>"

definition md5Manifest :: Manifest where
  "md5Manifest =
     \<lparr>m_name = ''/tmp/bag1/manifest-md5.txt'', m_type = PayloadManifest, m_algo = ''md5'',
      m_Data = [(''data/a.txt'', ''md5:hello'')]\<rparr>"

definition bagitFile :: TagFile where
  "bagitFile =
     \<lparr>tf_name = ''/tmp/bag1/bagit.txt'',
      tf_Data = [(''BagIt-Version'', ''0.97''), (''Tag-File-Character-Encoding'', ''UTF-8'')]\<rparr>"

definition bag1 :: Bag where
  "bag1 =
     \<lparr>pathToFile = ''/tmp/bag1'', payload = \<lparr>p_dir = ''/tmp/bag1/data''\<rparr>,
      Manifests = [md5Manifest], tagfiles = [(''bagit.txt'', bagitFile)]\<rparr>"

definition oldBag1 :: Bag1 where
  "oldBag1 =
     \<lparr>pth = ''/tmp/bag1'', payload1 = \<lparr>p_dir = ''/tmp/bag1/data''\<rparr>,
      Manifest1 = md5Manifest, tagfiles1 = [(''bagit.txt'', bagitFile)]\<rparr>"

text \<open>A disk on which the walk of any root fails at the root itself.\<close>

definition unreadableDisk :: world where
  "unreadableDisk =
     tmpDisk\<lparr>walk := (\<lambda>root. [(root, False, Some (''lstat '' @ root @ '': no such file or directory''))])\<rparr>"

text \<open>The directories of the bag \<open>/tmp/bag1\<close> with no file in them yet.\<close>

definition bagDirDisk :: world where
  "bagDirDisk = tmpDisk\<lparr>dirs := {''/tmp'', ''/tmp/bag1'', ''/tmp/bag1/data''}\<rparr>"

definition infoFile :: TagFile where
  "infoFile = \<lparr>tf_name = ''/tmp/bag1/bag-info.txt'', tf_Data = [(''Source-Organization'', ''VISC'')]\<rparr>"

definition tagMd5Manifest :: Manifest where
  "tagMd5Manifest =
     \<lparr>m_name = ''/tmp/bag1/tagmanifest-md5.txt'', m_type = TagManifest, m_algo = ''md5'', m_Data = []\<rparr>"

text \<open>A bag with two tag files, a payload manifest and a tag manifest.\<close>

definition twoTagBag :: Bag where
  "twoTagBag =
     \<lparr>pathToFile = ''/tmp/bag1'', payload = \<lparr>p_dir = ''/tmp/bag1/data''\<rparr>,
      Manifests = [md5Manifest, tagMd5Manifest],
      tagfiles = [(''bagit.txt'', bagitFile), (''bag-info.txt'', infoFile)]\<rparr>"

text \<open>
  A bag where \<open>AddTagfile("tagmanifest-md5.txt")\<close> has registered the file of the tag
  manifest as a tag file.
\<close>

definition selfTagFile :: TagFile where
  "selfTagFile = \<lparr>tf_name = ''/tmp/bag1/tagmanifest-md5.txt'', tf_Data = []\<rparr>"

definition selfTagBag :: Bag where
  "selfTagBag =
     \<lparr>pathToFile = ''/tmp/bag1'', payload = \<lparr>p_dir = ''/tmp/bag1/data''\<rparr>,
      Manifests = [tagMd5Manifest],
      tagfiles = [(''tagmanifest-md5.txt'', selfTagFile)]\<rparr>"

text \<open>The same directories, where bagit.txt cannot be created.\<close>

definition noBagitDisk :: world where
  "noBagitDisk = bagDirDisk\<lparr>denied := {''/tmp/bag1/bagit.txt''}\<rparr>"

text \<open>The disk with \<open>/tmp\<close> only, where the payload manifest of bag1 cannot be created.\<close>

definition lockedDisk :: world where
  "lockedDisk = tmpDisk\<lparr>denied := {''/tmp/bag1/manifest-md5.txt''}\<rparr>"

text \<open>The two lines of bagit.txt, and the bag that NewBag returns for md5 with tag manifests.\<close>

definition bagitText :: string where
  "bagitText = ''BagIt-Version: 0.97'' @ [CHR 0x0A] @ ''Tag-File-Character-Encoding: UTF-8'' @ [CHR 0x0A]"

definition freshBag :: Bag where
  "freshBag =
     \<lparr>pathToFile = ''/tmp/bag1'', payload = \<lparr>p_dir = ''/tmp/bag1/data''\<rparr>,
      Manifests =
        [\<lparr>m_name = ''/tmp/bag1/manifest-md5.txt'', m_type = PayloadManifest, m_algo = ''md5'', m_Data = []\<rparr>,
         \<lparr>m_name = ''/tmp/bag1/tagmanifest-md5.txt'', m_type = TagManifest, m_algo = ''md5'',
            m_Data = [(''/tmp/bag1/bagit.txt'', toyDigest ''md5'' bagitText)]\<rparr>],
      tagfiles = [(''bagit.txt'', bagitFile)]\<rparr>"

text \<open>A bag directory with bagit.txt and the payload directory, and no manifest.\<close>

definition bareDisk :: world where
  "bareDisk =
     tmpDisk\<lparr>dirs := {''/tmp'', ''/tmp/bag1'', ''/tmp/bag1/data''},
             files := [''/tmp/bag1/bagit.txt'' \<mapsto> ''BagIt-Version: 0.97''],
             walk := (\<lambda>root. if root = ''/tmp/bag1'' then
                        [(''/tmp/bag1'', True, None),
                         (''/tmp/bag1/bagit.txt'', False, None),
                         (''/tmp/bag1/data'', True, None)]
                      else [])\<rparr>"

text \<open>
  A bag directory with the payload directory and \<open>tagmanifest-sha1.txt\<close> only; the
  tag manifest parses without error.
\<close>

definition sha1TagManifest :: Manifest where
  "sha1TagManifest =
     \<lparr>m_name = ''/tmp/bag1/tagmanifest-sha1.txt'', m_type = TagManifest, m_algo = ''sha1'', m_Data = []\<rparr>"

definition tagOnlyDisk :: world where
  "tagOnlyDisk =
     tmpDisk\<lparr>dirs := {''/tmp'', ''/tmp/bag1'', ''/tmp/bag1/data''},
             files := [''/tmp/bag1/tagmanifest-sha1.txt'' \<mapsto> []],
             walk := (\<lambda>root. if root = ''/tmp/bag1'' then
                        [(''/tmp/bag1'', True, None),
                         (''/tmp/bag1/data'', True, None),
                         (''/tmp/bag1/tagmanifest-sha1.txt'', False, None)]
                      else []),
             readManifest := (\<lambda>p. (sha1TagManifest, []))\<rparr>"

text \<open>A bag directory with two manifests, both malformed, each with its own parse error.\<close>

definition twoBadDisk :: world where
  "twoBadDisk =
     tmpDisk\<lparr>dirs := {''/tmp'', ''/tmp/bag1'', ''/tmp/bag1/data''},
             files := [''/tmp/bag1/bagit.txt'' \<mapsto> ''BagIt-Version: 0.97'',
                       ''/tmp/bag1/manifest-md5.txt'' \<mapsto> ''zz data/x.txt'',
                       ''/tmp/bag1/manifest-sha1.txt'' \<mapsto> ''yy data/x.txt''],
             walk := (\<lambda>root. if root = ''/tmp/bag1'' then
                        [(''/tmp/bag1'', True, None),
                         (''/tmp/bag1/bagit.txt'', False, None),
                         (''/tmp/bag1/data'', True, None),
                         (''/tmp/bag1/manifest-md5.txt'', False, None),
                         (''/tmp/bag1/manifest-sha1.txt'', False, None)]
                      else []),
             readManifest := (\<lambda>p. (md5Manifest,
                        if p = ''/tmp/bag1/manifest-md5.txt'' then [''bad digest zz'']
                        else if p = ''/tmp/bag1/manifest-sha1.txt'' then [''bad digest yy'']
                        else []))\<rparr>"

section \<open>Notions the properties are stated with\<close>







text \<open>
  A manifest after some steps is the manifest before with entries added under keys of
  \<open>new\<close> at most: same file, type and algorithm.
\<close>

definition sameManifest :: "string set \<Rightarrow> Manifest \<Rightarrow> Manifest \<Rightarrow> bool" where
  "sameManifest new m m' =
     (m_name m' = m_name m \<and> m_type m' = m_type m \<and> m_algo m' = m_algo m
      \<and> fst ` set (m_Data m') \<subseteq> fst ` set (m_Data m) \<union> new)"




text \<open>The manifest reads of an open, for the listed files that are manifest paths.\<close>

definition readSteps :: "string \<Rightarrow> string list \<Rightarrow> event list" where
  "readSteps root fs = map (\<lambda>g. EvReadManifest (Join [root, g])) (filter (isManifestPath root) fs)"

section \<open>Path evaluation\<close>

lemmas path_defs =
  Join_def Clean_def Dir_def Rel_def isRooted_def pathElems_def HasPrefix_def Base_def

lemmas world_defs =
  os_Mkdir_def os_MkdirAll_def mkdirAll_def writeFile_def logEv_def os_Stat_def FileChecksum_def
  TagFile_Create_def Manifest_Create_def ancestors_def tagFileText_def manifestText_def

lemmas bag_defs =
  NewBag_def initBag_def createBagItFile_def AddTagfile_def TagFile_def Save_def NewManifest_def
  NewPayload_def NewTagFile_def NewTagField_def AddField_def appendErr_def Path_def ToLower_def
  lowerChar_def supportedAlgorithms_def GetManifests_def Let_def

lemmas example_defs =
  tmpDisk_def bagDirDisk_def noBagitDisk_def lockedDisk_def bareDisk_def tagOnlyDisk_def
  twoBadDisk_def bag1_def oldBag1_def twoTagBag_def selfTagBag_def selfTagFile_def freshBag_def
  md5Manifest_def
  tagMd5Manifest_def sha1TagManifest_def bagitFile_def infoFile_def bagitText_def toyDigest_def

section \<open>Listing, tracking and orphans\<close>

lemma listFilesUnder_error:
  "snd (Walk (walk w root) (visit root pname) []) = Some e \<Longrightarrow> listFilesUnder root pname w = ([], Some e)"
  by (cases "Walk (walk w root) (visit root pname) []") (simp add: listFilesUnder_def)

text \<open>
  C10. When the walk under ListFiles fails, ListFiles returns no files together with the
  error, and Orphans, which drops that error, returns the empty list.
\<close>

theorem Orphans_walk_error:
  "snd (Walk (walk w (Path1 b)) (visit (Path1 b) (Payload_Name (payload1 b))) []) = Some e
   \<Longrightarrow> ListFiles1 b w = ([], Some e) \<and> Orphans b w = []"
  by (simp add: ListFiles1_def Orphans_def listFilesUnder_error)

theorem Orphans_walk_error_witness:
  "snd (Walk (walk unreadableDisk (Path1 oldBag1))
          (visit (Path1 oldBag1) (Payload_Name (payload1 oldBag1))) [])
     = Some ''lstat /tmp/bag1: no such file or directory''
   \<and> ListFiles1 oldBag1 unreadableDisk = ([], Some ''lstat /tmp/bag1: no such file or directory'')
   \<and> Orphans oldBag1 unreadableDisk = []"
proof -
  have h: "snd (Walk (walk unreadableDisk (Path1 oldBag1))
          (visit (Path1 oldBag1) (Payload_Name (payload1 oldBag1))) [])
     = Some ''lstat /tmp/bag1: no such file or directory''"
    by (simp add: unreadableDisk_def tmpDisk_def oldBag1_def Path1_def visit_def)
  from Orphans_walk_error [OF h] h show ?thesis by simp
qed

text \<open>
  C6. On the bag \<open>/tmp/bag1\<close> with the payload file \<open>data/a.txt\<close>, ListFiles returns
  \<open>data/a.txt\<close>: the walk passes over directories under the payload directory only, and
  a payload file is not a directory. Orphans reports the payload file as well.
\<close>

theorem ListFiles_lists_payload_file:
  "ListFiles bag1 bag1Disk = ([''bagit.txt'', ''data/a.txt'', ''manifest-md5.txt''], None)
   \<and> ''data/a.txt'' \<in> set (Orphans oldBag1 bag1Disk)"
  by (simp add: ListFiles_def ListFiles1_def Orphans_def TrackedFiles_def listFilesUnder_def
      bag1_def oldBag1_def bag1Disk_def tmpDisk_def md5Manifest_def bagitFile_def
      Path_def Path1_def Payload_Name_def visit_def path_defs)

text \<open>
  C7. On the bag \<open>/tmp/bag1\<close> with the manifest \<open>/tmp/bag1/manifest-md5.txt\<close>,
  TrackedFiles returns the tag-file names only: the relative path of the manifest is
  appended when \<open>filepath.Rel\<close> fails, and here it succeeds.
\<close>

theorem TrackedFiles_omits_manifest:
  "TrackedFiles oldBag1 = [''bagit.txt'']
   \<and> Rel (Path1 oldBag1) (m_name (Manifest1 oldBag1)) = (''manifest-md5.txt'', None)
   \<and> ''manifest-md5.txt'' \<notin> set (TrackedFiles oldBag1)"
  by (simp add: TrackedFiles_def oldBag1_def md5Manifest_def bagitFile_def Path1_def path_defs)

section \<open>Creating a bag\<close>

lemma AddTagfile_registers:
  "AddTagfile nm b w = (None, b1, w1) \<Longrightarrow>
     map_of (tagfiles b1) nm = Some \<lparr>tf_name = Join [Path b, nm], tf_Data = []\<rparr>"
  by (auto simp: AddTagfile_def NewTagFile_def Let_def update_conv' split: prod.splits option.splits)

lemma createBagItFile_fields:
  "createBagItFile b w = (Inr tf, b1, w1) \<Longrightarrow>
     tf_Data tf = [(''BagIt-Version'', ''0.97''), (''Tag-File-Character-Encoding'', ''UTF-8'')]
     \<and> map_of (tagfiles b1) ''bagit.txt'' = Some tf"
  by (auto simp: createBagItFile_def TagFile_def AddField_def NewTagField_def Let_def update_conv'
      dest!: AddTagfile_registers split: prod.splits option.splits sum.splits)

lemma Save_tagfiles: "Save b w = (errs, b1, w1) \<Longrightarrow> tagfiles b1 = tagfiles b"
  by (auto simp: Save_def split: prod.splits option.splits)

lemma NewBag_tmpDisk:
  "fst (NewBag ''/tmp'' ''bag1'' [''md5''] True tmpDisk) = Inr freshBag"
  by (simp add: bag_defs world_defs path_defs example_defs)

lemma NewBag_tmpDisk_file:
  "files (snd (NewBag ''/tmp'' ''bag1'' [''md5''] True tmpDisk)) ''/tmp/bag1/bagit.txt'' = Some bagitText"
  by (simp add: bag_defs world_defs path_defs example_defs)

text \<open>
  C9. When NewBag returns a bag, the tag file registered as \<open>bagit.txt\<close> has exactly the
  two fields \<open>BagIt-Version: 0.97\<close> and \<open>Tag-File-Character-Encoding: UTF-8\<close>, in this
  order.
\<close>

theorem NewBag_bagit_fields:
  "fst (NewBag location nm hashNames createTagManifests w) = Inr b \<Longrightarrow>
     \<exists>tf. map_of (tagfiles b) ''bagit.txt'' = Some tf
        \<and> tf_Data tf = [(''BagIt-Version'', ''0.97''), (''Tag-File-Character-Encoding'', ''UTF-8'')]"
  by (auto simp: NewBag_def initBag_def Let_def update_conv'
      dest!: createBagItFile_fields Save_tagfiles split: prod.splits option.splits sum.splits)

theorem NewBag_bagit_fields_witness:
  "fst (NewBag ''/tmp'' ''bag1'' [''md5''] True tmpDisk) = Inr freshBag
   \<and> (\<exists>tf. map_of (tagfiles freshBag) ''bagit.txt'' = Some tf
        \<and> tf_Data tf = [(''BagIt-Version'', ''0.97''), (''Tag-File-Character-Encoding'', ''UTF-8'')])"
  using NewBag_bagit_fields [OF NewBag_tmpDisk] NewBag_tmpDisk by simp

text \<open>
  C8. On a disk where the payload manifest cannot be written, the Save at the end of
  NewBag returns an error, and NewBag returns the bag and no error: the test before the
  error return reads \<open>err\<close>, which is nil there, together with the length of the list.
\<close>

theorem NewBag_drops_save_errors:
  "(case initBag ''/tmp'' ''bag1'' [''md5''] True lockedDisk of
      (Inr b, w) \<Rightarrow> fst (Save b w) = [''open /tmp/bag1/manifest-md5.txt: permission denied'']
    | (Inl e, w) \<Rightarrow> False)
   \<and> \<not> isl (fst (NewBag ''/tmp'' ''bag1'' [''md5''] True lockedDisk))"
  by (simp add: bag_defs world_defs path_defs example_defs)

text \<open>
  C2. After \<open>NewBag("/tmp", "bag1", ["md5"], true)\<close> the tag manifest has one entry. Its
  digest is the digest of the two lines written to bagit.txt, and its key is the joined
  path \<open>/tmp/bag1/bagit.txt\<close> that the tag file carries as its name; there is no entry
  under the key \<open>bagit.txt\<close>.
\<close>

theorem tag_manifest_key_is_joined_path:
  "fst (NewBag ''/tmp'' ''bag1'' [''md5''] True tmpDisk) = Inr freshBag
   \<and> files (snd (NewBag ''/tmp'' ''bag1'' [''md5''] True tmpDisk)) ''/tmp/bag1/bagit.txt'' = Some bagitText
   \<and> map m_Data (GetManifests freshBag TagManifest) = [[(''/tmp/bag1/bagit.txt'', toyDigest ''md5'' bagitText)]]
   \<and> map (\<lambda>m. map_of (m_Data m) ''bagit.txt'') (GetManifests freshBag TagManifest) = [None]"
  using NewBag_tmpDisk NewBag_tmpDisk_file by (simp add: GetManifests_def freshBag_def)

section \<open>Saving a bag\<close>




























lemma sameManifest_names:
  "list_all2 (sameManifest S) ms ms1 \<Longrightarrow> m_name ` set ms1 = m_name ` set ms"
  by (induction ms ms1 rule: list_all2_induct) (auto simp: sameManifest_def)




text \<open>
  C3. Where bagit.txt cannot be created, Save appends the error of the write, fails to
  read the file for the md5 checksum and returns at once: the list returned holds the
  checksum error only, the second tag file is not touched and no manifest is written.
\<close>

theorem Save_returns_at_checksum_failure:
  "fst (Save twoTagBag noBagitDisk) =
     [''Error calculating md5 checksum for file /tmp/bag1/bagit.txt: open /tmp/bag1/bagit.txt: no such file or directory'']
   \<and> trace (snd (snd (Save twoTagBag noBagitDisk))) =
     [EvMkdirAll ''/tmp/bag1'', EvWriteTagFile ''/tmp/bag1/bagit.txt'', EvChecksum ''/tmp/bag1/bagit.txt'' ''md5'']"
  by (simp add: bag_defs world_defs path_defs example_defs)

section \<open>Opening a bag\<close>

lemmas read_defs =
  ReadBag_def findManifests_def ListFiles_def listFilesUnder_def visit_def NewPayload_def
  os_Stat_def Path_def Payload_Name_def isManifestPath_def ReadManifest_def ReadTagFile_def
  logEv_def joinErrors_def NoManifestFound_def Errorf_def Let_def

lemma findLoop_none:
  "\<forall>f \<in> set fs. \<not> isManifestPath root f \<Longrightarrow> findLoop root fs ms w = ([], ms, w)"
  by (induction fs) auto

lemma findLoop_some:
  "\<exists>f \<in> set fs. isManifestPath root f \<Longrightarrow> findLoop root fs ms w = (errs, ms1, w1)
     \<Longrightarrow> errs \<noteq> [] \<or> ms1 \<noteq> []"
proof (induction fs arbitrary: ms w)
  case Nil
  then show ?case by simp
next
  case (Cons f fs)
  have grows: "\<And>fs ms w errs ms1 w1. findLoop root fs ms w = (errs, ms1, w1) \<Longrightarrow> ms \<noteq> [] \<Longrightarrow> errs \<noteq> [] \<or> ms1 \<noteq> []"
  proof -
    fix fs ms w errs ms1 w1
    show "findLoop root fs ms w = (errs, ms1, w1) \<Longrightarrow> ms \<noteq> [] \<Longrightarrow> errs \<noteq> [] \<or> ms1 \<noteq> []"
      by (induction fs arbitrary: ms w) (auto split: if_splits prod.splits)
  qed
  show ?case
  proof (cases "isManifestPath root f")
    case True
    obtain m es w2 where rm: "ReadManifest (Join [root, f]) w = ((m, es), w2)" by (metis prod.exhaust)
    show ?thesis
    proof (cases "es = []")
      case True
      with Cons.prems \<open>isManifestPath root f\<close> rm have "findLoop root fs (ms @ [m]) w2 = (errs, ms1, w1)" by simp
      from grows [OF this] show ?thesis by simp
    next
      case False
      with Cons.prems \<open>isManifestPath root f\<close> rm show ?thesis by auto
    qed
  next
    case False
    with Cons.prems have "\<exists>f \<in> set fs. isManifestPath root f" "findLoop root fs ms w = (errs, ms1, w1)" by auto
    from Cons.IH [OF this] show ?thesis .
  qed
qed

lemma joinErrors_acc: "\<exists>s. foldl (\<lambda>msg e. msg @ ''; '' @ e) acc errs = acc @ s"
  by (induction errs arbitrary: acc) (auto, metis append_assoc)

lemma Errorf_first: "c \<noteq> CHR ''%'' \<Longrightarrow> \<exists>s. Errorf (c # cs) w = c # s"
  by (simp add: Errorf_def split: list.split)

lemma Errorf_verbs:
  assumes "verbs w1 = verbs w"
  shows "Errorf format w1 = Errorf format w"
  unfolding Errorf_def assms by (rule refl)

lemma joinErrors_not_NoManifestFound:
  "errs \<noteq> [] \<Longrightarrow> Errorf (joinErrors errs) w \<noteq> NoManifestFound"
proof (cases errs)
  case Nil
  assume "errs \<noteq> []" with Nil show ?thesis by simp
next
  case (Cons e es)
  from joinErrors_acc [of "''; '' @ e" es] obtain s where
    "foldl (\<lambda>msg e. msg @ ''; '' @ e) (''; '' @ e) es = (''; '' @ e) @ s" by blast
  with Cons have "joinErrors errs = CHR '';'' # ('' '' @ e @ s)" by (simp add: joinErrors_def)
  moreover from Errorf_first [of "CHR '';''" "'' '' @ e @ s" w]
  obtain t where "Errorf (CHR '';'' # ('' '' @ e @ s)) w = CHR '';'' # t" by auto
  ultimately show ?thesis by (simp add: NoManifestFound_def)
qed

lemma reparse_not_NoManifestFound:
  "reparse root ms w = (Inl e, w1) \<Longrightarrow> e \<noteq> NoManifestFound"
  by (induction ms arbitrary: w w1)
     (auto simp: NoManifestFound_def Let_def split: prod.splits option.splits if_splits sum.splits)

lemma NoManifestFound_iff:
  assumes "os_Stat root w = (True, None)"
    and "NewPayload (Join [root, ''data'']) w = Inr pl"
  shows "(fst (ReadBag root tfs w) = Inl NoManifestFound)
     = (\<forall>f \<in> set (fst (ListFiles \<lparr>pathToFile = root, payload = pl, Manifests = [], tagfiles = []\<rparr> w)).
          \<not> isManifestPath root f)"
proof -
  let ?b = "\<lparr>pathToFile = root, payload = pl, Manifests = [], tagfiles = []\<rparr>"
  obtain fs r where lf: "ListFiles ?b w = (fs, r)" by (metis prod.exhaust)
  obtain errs ms w1 where fl: "findLoop root fs [] w = (errs, ms, w1)" by (metis prod.exhaust)
  have fm: "findManifests ?b w = (errs, ?b\<lparr>Manifests := ms\<rparr>, w1)"
    using lf fl by (simp add: findManifests_def)
  show ?thesis
  proof (cases "\<forall>f \<in> set fs. \<not> isManifestPath root f")
    case True
    from findLoop_none [OF True, of "[]" w] fl have "errs = []" "ms = []" by simp_all
    with assms fm lf True show ?thesis by (simp add: ReadBag_def)
  next
    case False
    then have ex: "\<exists>f \<in> set fs. isManifestPath root f" by blast
    from findLoop_some [OF ex fl] have nonempty: "errs \<noteq> [] \<or> ms \<noteq> []" .
    have "fst (ReadBag root tfs w) \<noteq> Inl NoManifestFound"
    proof (cases "errs = []")
      case False
      with assms fm show ?thesis
        by (simp add: ReadBag_def joinErrors_not_NoManifestFound)
    next
      case True
      with nonempty have ms: "ms \<noteq> []" by simp
      obtain rr w2 where rp: "reparse root ms w1 = (rr, w2)" by (metis prod.exhaust)
      show ?thesis
      proof (cases rr)
        case (Inl e)
        with rp reparse_not_NoManifestFound have "e \<noteq> NoManifestFound" by blast
        with assms fm True ms rp Inl show ?thesis by (simp add: ReadBag_def)
      next
        case (Inr ms2)
        with assms fm True ms rp show ?thesis by (simp add: ReadBag_def)
      qed
    qed
    with False lf show ?thesis by simp
  qed
qed

text \<open>
  C4, as the code has it. For a root that is a directory with a payload directory,
  opening fails with NoManifestFound exactly when the listing of the bag (empty when the
  walk fails) has no path that, joined to the root, starts with the payload manifest
  prefix or with the tag manifest prefix. So a listed path that starts with the tag
  manifest prefix rules NoManifestFound out, whether or not a payload manifest is listed.
\<close>

theorem ReadBag_NoManifestFound:
  assumes "os_Stat root w = (True, None)"
    and "NewPayload (Join [root, ''data'']) w = Inr pl"
  shows "((fst (ReadBag root tfs w) = Inl NoManifestFound)
      = (\<forall>f \<in> set (fst (ListFiles \<lparr>pathToFile = root, payload = pl, Manifests = [], tagfiles = []\<rparr> w)).
           \<not> isManifestPath root f))
     \<and> (\<forall>f \<in> set (fst (ListFiles \<lparr>pathToFile = root, payload = pl, Manifests = [], tagfiles = []\<rparr> w)).
           HasPrefix (Join [root, f]) (Join [root, ''tagmanifest-''])
           \<longrightarrow> fst (ReadBag root tfs w) \<noteq> Inl NoManifestFound)"
  using NoManifestFound_iff [OF assms, of tfs] by (auto simp: isManifestPath_def Let_def)

theorem ReadBag_NoManifestFound_witness:
  "os_Stat ''/tmp/bag1'' bareDisk = (True, None)
   \<and> NewPayload (Join [''/tmp/bag1'', ''data'']) bareDisk = Inr \<lparr>p_dir = ''/tmp/bag1/data''\<rparr>
   \<and> fst (ReadBag ''/tmp/bag1'' [] bareDisk) = Inl NoManifestFound
   \<and> os_Stat ''/tmp/bag1'' tagOnlyDisk = (True, None)
   \<and> NewPayload (Join [''/tmp/bag1'', ''data'']) tagOnlyDisk = Inr \<lparr>p_dir = ''/tmp/bag1/data''\<rparr>
   \<and> ''tagmanifest-sha1.txt'' \<in> set (fst (ListFiles \<lparr>pathToFile = ''/tmp/bag1'',
         payload = \<lparr>p_dir = ''/tmp/bag1/data''\<rparr>, Manifests = [], tagfiles = []\<rparr> tagOnlyDisk))
   \<and> HasPrefix (Join [''/tmp/bag1'', ''tagmanifest-sha1.txt'']) (Join [''/tmp/bag1'', ''tagmanifest-''])
   \<and> fst (ReadBag ''/tmp/bag1'' [] tagOnlyDisk) \<noteq> Inl NoManifestFound"
proof -
  let ?b = "\<lparr>pathToFile = ''/tmp/bag1'', payload = \<lparr>p_dir = ''/tmp/bag1/data''\<rparr>, Manifests = [], tagfiles = []\<rparr>"
  have h1: "os_Stat ''/tmp/bag1'' bareDisk = (True, None)"
    by (simp add: os_Stat_def bareDisk_def tmpDisk_def)
  have h2: "NewPayload (Join [''/tmp/bag1'', ''data'']) bareDisk = Inr \<lparr>p_dir = ''/tmp/bag1/data''\<rparr>"
    by (simp add: NewPayload_def os_Stat_def bareDisk_def tmpDisk_def path_defs)
  have h3: "fst (ListFiles ?b bareDisk) = [''bagit.txt'']"
    by (simp add: ListFiles_def listFilesUnder_def visit_def Path_def Payload_Name_def bareDisk_def tmpDisk_def path_defs)
  have h4: "\<not> isManifestPath ''/tmp/bag1'' ''bagit.txt''"
    by (simp add: isManifestPath_def path_defs)
  have g1: "os_Stat ''/tmp/bag1'' tagOnlyDisk = (True, None)"
    by (simp add: os_Stat_def tagOnlyDisk_def tmpDisk_def)
  have g2: "NewPayload (Join [''/tmp/bag1'', ''data'']) tagOnlyDisk = Inr \<lparr>p_dir = ''/tmp/bag1/data''\<rparr>"
    by (simp add: NewPayload_def os_Stat_def tagOnlyDisk_def tmpDisk_def path_defs)
  have g3: "fst (ListFiles ?b tagOnlyDisk) = [''tagmanifest-sha1.txt'']"
    by (simp add: ListFiles_def listFilesUnder_def visit_def Path_def Payload_Name_def tagOnlyDisk_def tmpDisk_def path_defs)
  have g4: "HasPrefix (Join [''/tmp/bag1'', ''tagmanifest-sha1.txt'']) (Join [''/tmp/bag1'', ''tagmanifest-''])"
    by (simp add: path_defs)
  from conjunct1 [OF ReadBag_NoManifestFound [OF h1 h2, of "[]"]] h3 h4
  have "fst (ReadBag ''/tmp/bag1'' [] bareDisk) = Inl NoManifestFound" by simp
  moreover from conjunct2 [OF ReadBag_NoManifestFound [OF g1 g2, of "[]"]] g3 g4
  have "fst (ReadBag ''/tmp/bag1'' [] tagOnlyDisk) \<noteq> Inl NoManifestFound" by simp
  ultimately show ?thesis using h1 h2 g1 g2 g3 g4 by simp
qed

text \<open>
  A bag directory with \<open>tagmanifest-sha1.txt\<close> and no payload manifest opens, its tag
  manifest being the only manifest of the bag.
\<close>

theorem ReadBag_tag_manifest_only_counterexample:
  "fst (ReadBag ''/tmp/bag1'' [] tagOnlyDisk) =
     Inr \<lparr>pathToFile = ''/tmp/bag1'', payload = \<lparr>p_dir = ''/tmp/bag1/data''\<rparr>,
          Manifests = [sha1TagManifest], tagfiles = []\<rparr>
   \<and> fst (ReadBag ''/tmp/bag1'' [] tagOnlyDisk) \<noteq> Inl NoManifestFound"
  by (simp add: read_defs path_defs example_defs)

lemma findLoop_first_error:
  assumes "readManifest w = rd"
    and "\<forall>g \<in> set good. isManifestPath root g \<longrightarrow> snd (rd (Join [root, g])) = []"
    and "isManifestPath root f"
    and "snd (rd (Join [root, f])) \<noteq> []"
  shows "\<exists>ms1 w1. findLoop root (good @ f # rest) ms w = (snd (rd (Join [root, f])), ms1, w1)
           \<and> trace w1 = trace w @ readSteps root (good @ [f]) \<and> verbs w1 = verbs w"
  using assms
proof (induction good arbitrary: ms w)
  case Nil
  then show ?case
    by (cases "rd (Join [root, f])") (simp add: ReadManifest_def logEv_def readSteps_def)
next
  case (Cons g good)
  show ?case
  proof (cases "isManifestPath root g")
    case False
    with Cons.IH [of w ms] Cons.prems show ?thesis by (simp add: readSteps_def)
  next
    case True
    with Cons.prems have ok: "snd (rd (Join [root, g])) = []" by simp
    let ?w = "logEv (EvReadManifest (Join [root, g])) w"
    have "readManifest ?w = rd" using Cons.prems(1) by (simp add: logEv_def)
    from Cons.IH [OF this, of "ms @ [fst (rd (Join [root, g]))]"] Cons.prems
    obtain ms1 w1 where
      "findLoop root (good @ f # rest) (ms @ [fst (rd (Join [root, g]))]) ?w = (snd (rd (Join [root, f])), ms1, w1)"
      "trace w1 = trace ?w @ readSteps root (good @ [f])" "verbs w1 = verbs ?w"
      by auto
    with True ok Cons.prems(1) show ?thesis
      by (cases "rd (Join [root, g])") (simp add: ReadManifest_def readSteps_def logEv_def)
  qed
qed

text \<open>
  C5, as the code has it. Opening stops at the first listed manifest file whose read
  returns errors: the error reported is what \<open>fmt.Errorf\<close> makes of the join of the
  errors of that one file, and the manifests read are those listed up to it; the files
  listed after it are not read.
\<close>

theorem ReadBag_first_malformed:
  assumes "os_Stat root w = (True, None)"
    and "NewPayload (Join [root, ''data'']) w = Inr pl"
    and "fst (ListFiles \<lparr>pathToFile = root, payload = pl, Manifests = [], tagfiles = []\<rparr> w) = good @ f # rest"
    and "\<forall>g \<in> set good. isManifestPath root g \<longrightarrow> snd (readManifest w (Join [root, g])) = []"
    and "isManifestPath root f"
    and "snd (readManifest w (Join [root, f])) \<noteq> []"
  shows "fst (ReadBag root tfs w) = Inl (Errorf (joinErrors (snd (readManifest w (Join [root, f])))) w)
     \<and> trace (snd (ReadBag root tfs w)) = trace w @ readSteps root (good @ [f])"
proof -
  let ?b = "\<lparr>pathToFile = root, payload = pl, Manifests = [], tagfiles = []\<rparr>"
  obtain r where lf: "ListFiles ?b w = (good @ f # rest, r)" using assms(3) by (cases "ListFiles ?b w") simp
  from findLoop_first_error [OF refl assms(4) assms(5) assms(6), of rest "[]"]
  obtain ms1 w1 where
    fl: "findLoop root (good @ f # rest) [] w = (snd (readManifest w (Join [root, f])), ms1, w1)"
    and tr: "trace w1 = trace w @ readSteps root (good @ [f])"
    and vb: "verbs w1 = verbs w"
    by blast
  have "findManifests ?b w = (snd (readManifest w (Join [root, f])), ?b\<lparr>Manifests := ms1\<rparr>, w1)"
    using lf fl by (simp add: findManifests_def)
  with assms(1,2,6) tr Errorf_verbs [OF vb] show ?thesis by (simp add: ReadBag_def)
qed

theorem ReadBag_first_malformed_witness:
  "os_Stat ''/tmp/bag1'' twoBadDisk = (True, None)
   \<and> fst (ReadBag ''/tmp/bag1'' [] twoBadDisk) = Inl (Errorf (joinErrors [''bad digest zz'']) twoBadDisk)
   \<and> Errorf (joinErrors [''bad digest zz'']) twoBadDisk = ''; bad digest zz''
   \<and> trace (snd (ReadBag ''/tmp/bag1'' [] twoBadDisk)) = trace twoBadDisk @ readSteps ''/tmp/bag1'' [''bagit.txt'', ''manifest-md5.txt'']"
proof -
  have h1: "os_Stat ''/tmp/bag1'' twoBadDisk = (True, None)"
    by (simp add: os_Stat_def twoBadDisk_def tmpDisk_def)
  have h2: "NewPayload (Join [''/tmp/bag1'', ''data'']) twoBadDisk = Inr \<lparr>p_dir = ''/tmp/bag1/data''\<rparr>"
    by (simp add: NewPayload_def os_Stat_def twoBadDisk_def tmpDisk_def path_defs)
  have h3: "fst (ListFiles \<lparr>pathToFile = ''/tmp/bag1'', payload = \<lparr>p_dir = ''/tmp/bag1/data''\<rparr>, Manifests = [], tagfiles = []\<rparr> twoBadDisk)
       = [''bagit.txt''] @ ''manifest-md5.txt'' # [''manifest-sha1.txt'']"
    by (simp add: ListFiles_def listFilesUnder_def visit_def Path_def Payload_Name_def twoBadDisk_def tmpDisk_def path_defs)
  have h4: "\<forall>g \<in> set [''bagit.txt'']. isManifestPath ''/tmp/bag1'' g \<longrightarrow> snd (readManifest twoBadDisk (Join [''/tmp/bag1'', g])) = []"
    by (simp add: isManifestPath_def path_defs)
  have h5: "isManifestPath ''/tmp/bag1'' ''manifest-md5.txt''"
    by (simp add: isManifestPath_def path_defs)
  have h6: "snd (readManifest twoBadDisk (Join [''/tmp/bag1'', ''manifest-md5.txt''])) = [''bad digest zz'']"
    by (simp add: twoBadDisk_def tmpDisk_def path_defs)
  have h6': "snd (readManifest twoBadDisk (Join [''/tmp/bag1'', ''manifest-md5.txt''])) \<noteq> []"
    using h6 by simp
  have h7: "Errorf (joinErrors [''bad digest zz'']) twoBadDisk = ''; bad digest zz''"
    by (simp add: Errorf_def joinErrors_def)
  from ReadBag_first_malformed [OF h1 h2 h3 h4 h5 h6', of "[]"] h1 h6 h7 show ?thesis by simp
qed


text \<open>
  With two malformed manifests the error holds the parse error of the first only, and
  the second manifest is never read.
\<close>

theorem ReadBag_two_malformed_counterexample:
  "fst (ReadBag ''/tmp/bag1'' [] twoBadDisk) = Inl ''; bad digest zz''
   \<and> trace (snd (ReadBag ''/tmp/bag1'' [] twoBadDisk)) = [EvReadManifest ''/tmp/bag1/manifest-md5.txt'']
   \<and> EvReadManifest ''/tmp/bag1/manifest-sha1.txt'' \<notin> set (trace (snd (ReadBag ''/tmp/bag1'' [] twoBadDisk)))"
  by (simp add: read_defs path_defs example_defs)

end
